theory Spec2Isabelle
  imports Complex_Main "HOL-Library.AList" "HOL-Library.Char_ord" "HOL-Library.List_Lexorder"
begin

section \<open>Data model of \<^verbatim>\<open>src/main.py\<close>\<close>

text \<open>
  Conventions of the embedding.
  \<^item> A Python \<^verbatim>\<open>str\<close> is modelled by the bytes of its UTF-8 encoding (a \<open>string\<close>), so
    \<^verbatim>\<open>.encode("utf-8")\<close> is the identity and \<^verbatim>\<open>.decode("utf-8")\<close> is a validity check.
    Lexicographic order on UTF-8 bytes is the order of the code points, which is the order
    Python's \<^verbatim>\<open>sorted\<close> uses on \<^verbatim>\<open>str\<close>.
  \<^item> Every \<^verbatim>\<open>raise\<close> is a value \<open>Inl e\<close> of a sum type. Only the class of an exception is
    kept, except for \<^verbatim>\<open>HTTPError\<close>, whose message and status code are data.
  \<^item> Calls to the EC2 client are recorded in a log (\<open>ec2_call list\<close>) that every effectful
    function returns next to its result.
  \<^item> The JSON codec, the signature verifier and the EC2 client are libraries, not code of
    the repository: they are fields of the environment \<open>env\<close>.
\<close>

type_synonym bytes = string

datatype exn =
    HTTPError string int
  | NotManaged
  | RuntimeError
  | ValueError
  | AttributeError
  | KeyError
  | IndexError
  | AssertionError
  | JSONDecodeError
  | UnicodeDecodeError
  | BadSignatureError
  | ClientError string

text \<open>The values \<^verbatim>\<open>json.loads\<close> produces. A float is its exact value, or not finite.\<close>

datatype pyfloat = Finite rat | NaN | Infinite bool

datatype json =
    JNull
  | JBool bool
  | JInt int
  | JFloat pyfloat
  | JString string
  | JArray "json list"
  | JObject "(string \<times> json) list"

text \<open>Python truthiness (\<^verbatim>\<open>not x\<close>, \<^verbatim>\<open>x or y\<close>) of a JSON value.\<close>

fun truthy :: "json \<Rightarrow> bool" where
  "truthy JNull = False"
| "truthy (JBool b) = b"
| "truthy (JInt i) = (i \<noteq> 0)"
| "truthy (JFloat f) = (f \<noteq> Finite 0)"
| "truthy (JString s) = (s \<noteq> [])"
| "truthy (JArray xs) = (xs \<noteq> [])"
| "truthy (JObject kvs) = (kvs \<noteq> [])"

text \<open>\<^verbatim>\<open>x == n\<close> for an integer literal \<open>n\<close>: \<^verbatim>\<open>True == 1\<close> and \<^verbatim>\<open>1.0 == 1\<close> hold in Python.\<close>

fun py_eq_int :: "json \<Rightarrow> int \<Rightarrow> bool" where
  "py_eq_int (JInt i) n = (i = n)"
| "py_eq_int (JBool b) n = ((if b then 1 else 0) = n)"
| "py_eq_int (JFloat (Finite r)) n = (r = of_int n)"
| "py_eq_int _ n = False"

text \<open>\<^verbatim>\<open>s == x\<close> for a \<^verbatim>\<open>str\<close> or \<^verbatim>\<open>None\<close> on the left (\<^verbatim>\<open>dict.get\<close> of a tag).\<close>

fun py_eq_str :: "string option \<Rightarrow> json \<Rightarrow> bool" where
  "py_eq_str (Some s) (JString t) = (s = t)"
| "py_eq_str None JNull = True"
| "py_eq_str _ _ = False"

text \<open>\<^verbatim>\<open>d.get(k)\<close> on a parsed JSON object: \<^verbatim>\<open>None\<close> when the key is missing.\<close>

definition dict_get :: "(string \<times> json) list \<Rightarrow> string \<Rightarrow> json" where
  "dict_get kvs k = (case map_of kvs k of None \<Rightarrow> JNull | Some v \<Rightarrow> v)"

text \<open>\<^verbatim>\<open>(d.get(k) or {}).get(k2)\<close>: a truthy value that is not a dict has no \<^verbatim>\<open>get\<close>.\<close>

definition get_or_empty_get :: "(string \<times> json) list \<Rightarrow> string \<Rightarrow> string \<Rightarrow> exn + json" where
  "get_or_empty_get kvs k k2 =
     (let v = dict_get kvs k;
          d = (if truthy v then v else JObject [])
      in case d of JObject kvs2 \<Rightarrow> Inr (dict_get kvs2 k2) | _ \<Rightarrow> Inl AttributeError)"

subsection \<open>Strings\<close>

text \<open>\<^verbatim>\<open>str.lower\<close> on ASCII letters; the names it is compared with are ASCII.\<close>

definition lower_char :: "char \<Rightarrow> char" where
  "lower_char c =
     (let n = (of_char c :: nat) in if 65 \<le> n \<and> n \<le> 90 then char_of (n + 32) else c)"

definition lower :: "string \<Rightarrow> string" where
  "lower s = map lower_char s"


text \<open>\<^verbatim>\<open>s.split(sep)\<close> for a one-character separator.\<close>

fun split :: "char \<Rightarrow> string \<Rightarrow> string list" where
  "split sep [] = [[]]"
| "split sep (c # cs) =
     (if c = sep then [] # split sep cs
      else (case split sep cs of [] \<Rightarrow> [[c]] | p # ps \<Rightarrow> (c # p) # ps))"

text \<open>\<^verbatim>\<open>s.split(sep, maxsplit=1)\<close>.\<close>

fun split_maxsplit1 :: "char \<Rightarrow> string \<Rightarrow> string list" where
  "split_maxsplit1 sep [] = [[]]"
| "split_maxsplit1 sep (c # cs) =
     (if c = sep then [[], cs]
      else (case split_maxsplit1 sep cs of [] \<Rightarrow> [[c]] | p # ps \<Rightarrow> (c # p) # ps))"

text \<open>\<^verbatim>\<open>xs[0]\<close>.\<close>

definition index0 :: "'a list \<Rightarrow> exn + 'a" where
  "index0 xs = (case xs of [] \<Rightarrow> Inl IndexError | x # _ \<Rightarrow> Inr x)"

subsection \<open>Byte codecs: UTF-8 validity, \<^verbatim>\<open>bytes.fromhex\<close>, \<^verbatim>\<open>base64.b64encode\<close>\<close>

definition byte_values :: "bytes \<Rightarrow> nat list" where
  "byte_values bs = map of_char bs"

definition continuation :: "nat \<Rightarrow> bool" where
  "continuation c = (128 \<le> c \<and> c \<le> 191)"

fun utf8_valid :: "nat list \<Rightarrow> bool" where
  "utf8_valid [] = True"
| "utf8_valid (b # bs) =
     (if b < 128 then utf8_valid bs
      else if 194 \<le> b \<and> b \<le> 223 then
        (case bs of c1 # r \<Rightarrow> continuation c1 \<and> utf8_valid r | _ \<Rightarrow> False)
      else if 224 \<le> b \<and> b \<le> 239 then
        (case bs of c1 # c2 # r \<Rightarrow>
           (if b = 224 then 160 \<le> c1 \<and> c1 \<le> 191
            else if b = 237 then 128 \<le> c1 \<and> c1 \<le> 159
            else continuation c1)
           \<and> continuation c2 \<and> utf8_valid r
         | _ \<Rightarrow> False)
      else if 240 \<le> b \<and> b \<le> 244 then
        (case bs of c1 # c2 # c3 # r \<Rightarrow>
           (if b = 240 then 144 \<le> c1 \<and> c1 \<le> 191
            else if b = 244 then 128 \<le> c1 \<and> c1 \<le> 143
            else continuation c1)
           \<and> continuation c2 \<and> continuation c3 \<and> utf8_valid r
         | _ \<Rightarrow> False)
      else False)"

definition decode_utf8 :: "bytes \<Rightarrow> exn + string" where
  "decode_utf8 bs = (if utf8_valid (byte_values bs) then Inr bs else Inl UnicodeDecodeError)"

definition isspace :: "char \<Rightarrow> bool" where
  "isspace c = (of_char c \<in> {32, 9, 10, 11, 12, 13 :: nat})"

definition hex_digit :: "char \<Rightarrow> nat option" where
  "hex_digit c =
     (let n = (of_char c :: nat) in
      if 48 \<le> n \<and> n \<le> 57 then Some (n - 48)
      else if 97 \<le> n \<and> n \<le> 102 then Some (n - 87)
      else if 65 \<le> n \<and> n \<le> 70 then Some (n - 55)
      else None)"

fun fromhex :: "string \<Rightarrow> exn + bytes" where
  "fromhex [] = Inr []"
| "fromhex (c # cs) =
     (if isspace c then fromhex cs
      else (case cs of
              [] \<Rightarrow> Inl ValueError
            | d # ds \<Rightarrow>
                (case (hex_digit c, hex_digit d) of
                   (Some hi, Some lo) \<Rightarrow>
                     (case fromhex ds of Inl e \<Rightarrow> Inl e
                      | Inr bs \<Rightarrow> Inr (char_of (hi * 16 + lo) # bs))
                 | _ \<Rightarrow> Inl ValueError)))"

definition b64_alphabet :: string where
  "b64_alphabet = ''ABCDEFGHIJKLMNOPQRSTUVWXYZabcdefghijklmnopqrstuvwxyz0123456789+/''"

definition b64_char :: "nat \<Rightarrow> char" where
  "b64_char n = b64_alphabet ! (n mod 64)"

fun b64encode_values :: "nat list \<Rightarrow> string" where
  "b64encode_values [] = []"
| "b64encode_values [a] =
     [b64_char (a div 4), b64_char ((a mod 4) * 16), CHR ''='', CHR ''='']"
| "b64encode_values [a, b] =
     [b64_char (a div 4), b64_char ((a mod 4) * 16 + b div 16),
      b64_char ((b mod 16) * 4), CHR ''='']"
| "b64encode_values (a # b # c # rest) =
     [b64_char (a div 4), b64_char ((a mod 4) * 16 + b div 16),
      b64_char ((b mod 16) * 4 + c div 64), b64_char (c mod 64)] @ b64encode_values rest"

definition b64encode :: "bytes \<Rightarrow> bytes" where
  "b64encode bs = b64encode_values (byte_values bs)"


subsection \<open>HTTP request and response\<close>

record HTTPRequest =
  request_method :: string
  path :: string
  query_parameters :: "(string \<times> string) list option"
  headers :: "(string \<times> string) list"
  body :: "bytes option"

record HTTPResponse =
  status_code :: int
  response_headers :: "(string \<times> string) list"
  response_body :: "bytes option"

text \<open>The first header whose lower-cased name is the lower-cased \<open>name\<close>, in dict order.\<close>

fun first_header :: "(string \<times> string) list \<Rightarrow> string \<Rightarrow> string option" where
  "first_header [] name = None"
| "first_header ((k, v) # kvs) name =
     (if lower k = lower name then Some v else first_header kvs name)"

definition get_header :: "HTTPRequest \<Rightarrow> string \<Rightarrow> string option" where
  "get_header request name = first_header (headers request) name"




subsection \<open>The EC2 client\<close>

text \<open>
  The operations of the boto3 client that the source calls. Each answers with a response
  or raises; a response is a page of items with an optional continuation token. The
  arguments are the keyword arguments of the call: the filters, the instance identifiers,
  \<^verbatim>\<open>IncludeAllInstances\<close>, \<^verbatim>\<open>NextToken\<close>.
\<close>

datatype ec2_call =
    DescribeTags "(string \<times> string list) list" "string option"
  | DescribeInstanceStatus "string list" bool "string option"
  | StartInstances "string list"
  | StopInstances "string list"

record 'a page =
  page_items :: "'a list option"
  NextToken :: "string option"

record Tag =
  ResourceId :: string
  Key :: string
  Value :: string

record InstanceStatus =
  InstanceId :: string
  InstanceState_Name :: string

record ec2_client =
  describe_tags :: "(string \<times> string list) list \<Rightarrow> string option \<Rightarrow> exn + Tag page"
  describe_instance_status :: "string list \<Rightarrow> bool \<Rightarrow> string option \<Rightarrow> exn + InstanceStatus page"
  start_instances :: "string list \<Rightarrow> exn + unit"
  stop_instances :: "string list \<Rightarrow> exn + unit"

definition TAG_KEY :: string where
  "TAG_KEY = ''svrmgr-message-id''"

text \<open>\<^verbatim>\<open>response.get(items_key) or []\<close>.\<close>

definition items_or_empty :: "'a page \<Rightarrow> 'a list" where
  "items_or_empty response = (case page_items response of None \<Rightarrow> [] | Some xs \<Rightarrow> xs)"

subsection \<open>Owner-message resolution\<close>

text \<open>\<^verbatim>\<open>get_message_id_for_instance\<close>: one call of \<^verbatim>\<open>describe_tags\<close>, not paginated.\<close>

definition owner_filters :: "string \<Rightarrow> (string \<times> string list) list" where
  "owner_filters instance_id =
     [(''resource-id'', [instance_id]), (''resource-type'', [''instance'']), (''key'', [TAG_KEY])]"

definition get_message_id_for_instance ::
  "ec2_client \<Rightarrow> string \<Rightarrow> (exn + string) \<times> ec2_call list" where
  "get_message_id_for_instance client instance_id =
     (let call = DescribeTags (owner_filters instance_id) None in
      case describe_tags client (owner_filters instance_id) None of
        Inl e \<Rightarrow> (Inl e, [call])
      | Inr response \<Rightarrow>
          (case items_or_empty response of
             [] \<Rightarrow> (Inl NotManaged, [call])
           | tag # rest \<Rightarrow>
               if length (tag # rest) > 2 then (Inl RuntimeError, [call])
               else (Inr (Value tag), [call])))"

subsection \<open>The environment, the request body and authentication\<close>

text \<open>
  \<open>verify_key\<close> is \<^verbatim>\<open>None\<close> or the method \<^verbatim>\<open>VerifyKey.verify(message, signature)\<close>, which
  returns or raises; \<open>json_loads\<close> and \<open>json_dumps\<close> are \<^verbatim>\<open>json.loads\<close> on the decoded
  body and \<^verbatim>\<open>json.dumps\<close> followed by the encoding to bytes.
\<close>

record env =
  verify_key :: "(bytes \<Rightarrow> bytes \<Rightarrow> exn + unit) option"
  json_loads :: "string \<Rightarrow> exn + json"
  json_dumps :: "json \<Rightarrow> string"
  ec2 :: ec2_client

definition get_json_body_data :: "env \<Rightarrow> HTTPRequest \<Rightarrow> exn + json" where
  "get_json_body_data e request =
     (case body request of
        None \<Rightarrow> Inr JNull
      | Some b \<Rightarrow> (case decode_utf8 b of Inl x \<Rightarrow> Inl x | Inr text \<Rightarrow> json_loads e text))"

definition from_json_body_data :: "env \<Rightarrow> int \<Rightarrow> json \<Rightarrow> HTTPResponse" where
  "from_json_body_data e code data =
     \<lparr>status_code = code,
      response_headers = [(''Content-Type'', ''application/json; charset=utf-8'')],
      response_body = Some (json_dumps e data)\<rparr>"

text \<open>\<^verbatim>\<open>x or ""\<close> and \<^verbatim>\<open>x or b""\<close> for an optional string.\<close>

definition or_empty :: "string option \<Rightarrow> string" where
  "or_empty v = (case v of None \<Rightarrow> [] | Some s \<Rightarrow> s)"

text \<open>
  \<^verbatim>\<open>verify_discord_request_auth\<close>: only \<^verbatim>\<open>BadSignatureError\<close> is caught; \<^verbatim>\<open>bytes.fromhex\<close> and
  every other exception of the verifier propagate.
\<close>

definition verify_discord_request_auth :: "env \<Rightarrow> HTTPRequest \<Rightarrow> exn + unit" where
  "verify_discord_request_auth e request =
     (case verify_key e of
        None \<Rightarrow> Inr ()
      | Some verify \<Rightarrow>
          (case fromhex (or_empty (get_header request ''X-Signature-Ed25519'')) of
             Inl x \<Rightarrow> Inl x
           | Inr signature \<Rightarrow>
               (let timestamp = or_empty (get_header request ''X-Signature-Timestamp'');
                    message = timestamp @ or_empty (body request)
                in if message = [] then Inl (HTTPError ''missing request signature'' 401)
                   else (case verify message signature of
                           Inl BadSignatureError \<Rightarrow>
                             Inl (HTTPError ''invalid request signature'' 401)
                         | Inl x \<Rightarrow> Inl x
                         | Inr u \<Rightarrow> Inr ()))))"

subsection \<open>Pagination\<close>

text \<open>
  \<^verbatim>\<open>_iter_ec2_response_pages\<close>: the first call carries no token; the loop goes on while the
  response has a non-empty \<^verbatim>\<open>NextToken\<close>. A provider that always answers with a token makes
  the loop run forever: the result is then \<open>None\<close>.
\<close>

definition token_given :: "string option \<Rightarrow> bool" where
  "token_given t = (case t of None \<Rightarrow> False | Some s \<Rightarrow> s \<noteq> [])"

partial_function (option) next_pages ::
  "(string option \<Rightarrow> exn + 'a page) \<Rightarrow> (string option \<Rightarrow> ec2_call) \<Rightarrow> 'a page
     \<Rightarrow> ((exn + 'a list) \<times> ec2_call list) option" where
  "next_pages client_fn call response =
     (if token_given (NextToken response) then
        (case client_fn (NextToken response) of
           Inl x \<Rightarrow> Some (Inl x, [call (NextToken response)])
         | Inr response' \<Rightarrow>
             Option.bind (next_pages client_fn call response')
               (\<lambda>(r, calls). Some (map_sum id ((@) (items_or_empty response')) r,
                                    call (NextToken response) # calls)))
      else Some (Inr [], []))"

declare next_pages.simps [code]

definition iter_ec2_response_pages ::
  "(string option \<Rightarrow> exn + 'a page) \<Rightarrow> (string option \<Rightarrow> ec2_call)
     \<Rightarrow> ((exn + 'a list) \<times> ec2_call list) option" where
  "iter_ec2_response_pages client_fn call =
     (case client_fn None of
        Inl x \<Rightarrow> Some (Inl x, [call None])
      | Inr response \<Rightarrow>
          Option.bind (next_pages client_fn call response)
            (\<lambda>(r, calls). Some (map_sum id ((@) (items_or_empty response)) r,
                                 call None # calls)))"

subsection \<open>Instances\<close>

datatype InstanceState = pending | running | shutting_down | terminated | stopping | stopped

fun state_value :: "InstanceState \<Rightarrow> string" where
  "state_value pending = ''pending''"
| "state_value running = ''running''"
| "state_value shutting_down = ''shutting-down''"
| "state_value terminated = ''terminated''"
| "state_value stopping = ''stopping''"
| "state_value stopped = ''stopped''"

text \<open>\<^verbatim>\<open>InstanceState(name)\<close>: the member with that value, or \<^verbatim>\<open>ValueError\<close>.\<close>

definition InstanceState_of :: "string \<Rightarrow> exn + InstanceState" where
  "InstanceState_of name =
     (case find (\<lambda>s. state_value s = name)
             [pending, running, shutting_down, terminated, stopping, stopped] of
        None \<Rightarrow> Inl ValueError
      | Some s \<Rightarrow> Inr s)"

text \<open>The fields \<^verbatim>\<open>id\<close>, \<^verbatim>\<open>tags\<close> and \<^verbatim>\<open>state\<close> of the dataclass; a dict is an association list
  in insertion order.\<close>

record Instance =
  inst_id :: string
  inst_tags :: "(string \<times> string) list"
  inst_state :: "InstanceState option"

definition list_filters :: "(string \<times> string list) list" where
  "list_filters = [(''resource-type'', [''instance'']), (''key'', [TAG_KEY, ''Name''])]"

text \<open>
  The grouping loop of \<^verbatim>\<open>list_instances\<close>: a new instance is appended to the dict, a known
  one keeps its place; within an instance a tag key keeps the place of its first value
  and takes the last value.
\<close>

fun group_tags ::
  "Tag list \<Rightarrow> (string \<times> (string \<times> string) list) list \<Rightarrow> (string \<times> (string \<times> string) list) list" where
  "group_tags [] tags_by_instance = tags_by_instance"
| "group_tags (tag # tags) tags_by_instance =
     (let tags_for_instance =
            (case map_of tags_by_instance (ResourceId tag) of
               None \<Rightarrow> []
             | Some ts \<Rightarrow> ts)
      in group_tags tags
           (AList.update (ResourceId tag)
              (AList.update (Key tag) (Value tag) tags_for_instance) tags_by_instance))"

definition list_instances :: "ec2_client \<Rightarrow> ((exn + Instance list) \<times> ec2_call list) option" where
  "list_instances client =
     Option.bind (iter_ec2_response_pages (describe_tags client list_filters)
                    (DescribeTags list_filters))
       (\<lambda>(r, calls).
          Some (map_sum id
                  (\<lambda>tags. map (\<lambda>(instance_id, ts).
                                  \<lparr>inst_id = instance_id, inst_tags = ts, inst_state = None\<rparr>)
                             (group_tags tags []))
                  r,
                calls))"

text \<open>
  \<^verbatim>\<open>get_instances_state\<close>: the statuses are indexed by instance identifier (the last status
  of an identifier wins); an instance without status raises \<^verbatim>\<open>KeyError\<close>. The source
  updates the instances in place, the model returns them.
\<close>

fun set_states ::
  "(string \<times> InstanceStatus) list \<Rightarrow> Instance list \<Rightarrow> exn + Instance list" where
  "set_states by_id [] = Inr []"
| "set_states by_id (i # rest) =
     (case map_of by_id (inst_id i) of
        None \<Rightarrow> Inl KeyError
      | Some status \<Rightarrow>
          (case InstanceState_of (InstanceState_Name status) of
             Inl x \<Rightarrow> Inl x
           | Inr s \<Rightarrow>
               (case set_states by_id rest of
                  Inl x \<Rightarrow> Inl x
                | Inr rest' \<Rightarrow> Inr (i\<lparr>inst_state := Some s\<rparr> # rest'))))"

definition get_instances_state ::
  "ec2_client \<Rightarrow> Instance list \<Rightarrow> ((exn + Instance list) \<times> ec2_call list) option" where
  "get_instances_state client instances =
     Option.bind
       (iter_ec2_response_pages
          (describe_instance_status client (map inst_id instances) True)
          (DescribeInstanceStatus (map inst_id instances) True))
       (\<lambda>(r, calls).
          Some (case r of
                  Inl x \<Rightarrow> Inl x
                | Inr instance_statuses \<Rightarrow>
                    set_states
                      (fold (\<lambda>i by_id. AList.update (InstanceId i) i by_id) instance_statuses [])
                      instances,
                calls))"

subsection \<open>Rendering\<close>

text \<open>
  The second half of \<^verbatim>\<open>handle_request\<close>, in its parts: the key of the sort and the name on
  a button (\<^verbatim>\<open>tags.get("Name") or id\<close>), the button of one instance, the loop that appends a
  row per instance to the refresh row, the response payload, and the filter and sort of
  the listed instances.
\<close>

definition display_name :: "Instance \<Rightarrow> string" where
  "display_name i =
     (case map_of (inst_tags i) ''Name'' of
        None \<Rightarrow> inst_id i
      | Some n \<Rightarrow> if n \<noteq> [] then n else inst_id i)"

definition button :: "string \<Rightarrow> int \<Rightarrow> string \<Rightarrow> json" where
  "button label style custom_id =
     JObject [(''type'', JInt 2), (''label'', JString label), (''style'', JInt style),
              (''custom_id'', JString custom_id)]"

definition action_row :: "json \<Rightarrow> json" where
  "action_row component = JObject [(''type'', JInt 1), (''components'', JArray [component])]"

definition refresh_label :: string where
  "refresh_label = [CHR 0xE2, CHR 0x86, CHR 0xBB]"

definition instance_button :: "Instance \<Rightarrow> json" where
  "instance_button i =
     (let name = display_name i in
      if inst_state i = Some stopped then
        button (''Start '' @ name) 3 (''start:'' @ inst_id i)
      else if inst_state i = Some running then
        button (''Stop '' @ name) 4 (''stop:'' @ inst_id i)
      else
        button (name @ '' ('' @
                  (case inst_state i of None \<Rightarrow> ''unknown'' | Some s \<Rightarrow> state_value s) @ '')'')
               2 (''refresh:'' @ inst_id i))"

fun append_components :: "Instance list \<Rightarrow> json list \<Rightarrow> json list" where
  "append_components [] server_components = server_components"
| "append_components (i # rest) server_components =
     append_components rest (server_components @ [action_row (instance_button i)])"

definition server_components :: "Instance list \<Rightarrow> json list" where
  "server_components instances =
     append_components instances [action_row (button refresh_label 2 ''refresh'')]"

definition response_data :: "Instance list \<Rightarrow> json" where
  "response_data instances =
     JObject [(''type'', JInt 7),
              (''data'', JObject [(''content'', JString ''Servers''),
                                  (''components'', JArray (server_components instances))])]"

definition select_instances :: "json \<Rightarrow> Instance list \<Rightarrow> Instance list" where
  "select_instances message_id instances =
     sort_key display_name
       (filter (\<lambda>i. py_eq_str (map_of (inst_tags i) TAG_KEY) message_id) instances)"

subsection \<open>The interaction handler\<close>

text \<open>
  The branch on the custom identifier (\<open>start_stop\<close>), the listing and rendering that
  follow it (\<open>render_message\<close>), and \<^verbatim>\<open>handle_request\<close> itself. The result is \<open>None\<close> when
  a pagination loop does not end, and otherwise the response or the exception raised,
  with the EC2 calls made.
\<close>

definition start_instance :: "ec2_client \<Rightarrow> string \<Rightarrow> (exn + unit) \<times> ec2_call list" where
  "start_instance client instance_id =
     (start_instances client [instance_id], [StartInstances [instance_id]])"

definition stop_instance :: "ec2_client \<Rightarrow> string \<Rightarrow> (exn + unit) \<times> ec2_call list" where
  "stop_instance client instance_id =
     (stop_instances client [instance_id], [StopInstances [instance_id]])"

definition start_stop ::
  "ec2_client \<Rightarrow> json \<Rightarrow> string \<Rightarrow> (exn + unit) \<times> ec2_call list" where
  "start_stop client message_id custom_id =
     (case index0 (split (CHR '':'') custom_id) of
        Inl x \<Rightarrow> (Inl x, [])
      | Inr first \<Rightarrow>
          if first \<in> set [''start'', ''stop''] then
            (case split_maxsplit1 (CHR '':'') custom_id of
               [action, instance_id] \<Rightarrow>
                 (case get_message_id_for_instance client instance_id of
                    (Inl NotManaged, calls) \<Rightarrow>
                      (Inl (HTTPError
                              ''Not allowed: instance doesn't exist or isn't managed by svrmgr''
                              403), calls)
                  | (Inl x, calls) \<Rightarrow> (Inl x, calls)
                  | (Inr instance_message_id, calls) \<Rightarrow>
                      if \<not> py_eq_str (Some instance_message_id) message_id then
                        (Inl (HTTPError
                                ''Not allowed: instance isn't managed by this message'' 403),
                         calls)
                      else if action = ''start'' then
                        (case start_instance client instance_id of
                           (r, calls') \<Rightarrow> (r, calls @ calls'))
                      else if action = ''stop'' then
                        (case stop_instance client instance_id of
                           (r, calls') \<Rightarrow> (r, calls @ calls'))
                      else (Inl AssertionError, calls))
             | _ \<Rightarrow> (Inl ValueError, []))
          else if custom_id \<noteq> ''refresh'' \<and> first \<noteq> ''refresh'' then
            (Inl (HTTPError ''Unknown component custom ID'' 400), [])
          else (Inr (), []))"

definition render_message ::
  "env \<Rightarrow> json \<Rightarrow> ((exn + HTTPResponse) \<times> ec2_call list) option" where
  "render_message e message_id =
     Option.bind (list_instances (ec2 e))
       (\<lambda>(r, calls).
          case r of
            Inl x \<Rightarrow> Some (Inl x, calls)
          | Inr instances \<Rightarrow>
              Option.bind (get_instances_state (ec2 e) (select_instances message_id instances))
                (\<lambda>(r', calls').
                   Some (map_sum id
                           (\<lambda>instances'. from_json_body_data e 200 (response_data instances'))
                           r',
                         calls @ calls')))"

definition handle_request ::
  "env \<Rightarrow> HTTPRequest \<Rightarrow> ((exn + HTTPResponse) \<times> ec2_call list) option" where
  "handle_request e request =
     (case verify_discord_request_auth e request of
        Inl x \<Rightarrow> Some (Inl x, [])
      | Inr u \<Rightarrow>
     (case get_json_body_data e request of
        Inl x \<Rightarrow> Some (Inl x, [])
      | Inr request_data \<Rightarrow>
     (case request_data of
        JObject members \<Rightarrow>
          (let interaction_type = dict_get members ''type'' in
           if interaction_type = JNull then
             Some (Inl (HTTPError ''Bad request body: missing type'' 400), [])
           else if py_eq_int interaction_type 1 then
             Some (Inr (from_json_body_data e 200 (JObject [(''type'', JInt 1)])), [])
           else if \<not> py_eq_int interaction_type 3 then
             Some (Inl (HTTPError ''Unsupported interaction type'' 400), [])
           else
             (case get_or_empty_get members ''message'' ''id'' of
                Inl x \<Rightarrow> Some (Inl x, [])
              | Inr message_id \<Rightarrow>
                  if message_id = JNull then
                    Some (Inl (HTTPError ''Bad request body: missing message ID'' 400), [])
                  else
                    (case get_or_empty_get members ''data'' ''custom_id'' of
                       Inl x \<Rightarrow> Some (Inl x, [])
                     | Inr custom_id \<Rightarrow>
                         if \<not> truthy custom_id then
                           Some (Inl (HTTPError
                                        ''Bad request body: missing component custom ID'' 400),
                                 [])
                         else
                           (case custom_id of
                              JString cid \<Rightarrow>
                                (case start_stop (ec2 e) message_id cid of
                                   (Inl x, calls) \<Rightarrow> Some (Inl x, calls)
                                 | (Inr u', calls) \<Rightarrow>
                                     Option.bind (render_message e message_id)
                                       (\<lambda>(r, calls'). Some (r, calls @ calls')))
                            | _ \<Rightarrow> Some (Inl AttributeError, [])))))
      | _ \<Rightarrow> Some (Inl (HTTPError ''Bad request body: not an object'' 400), []))))"

section \<open>Observations on the call log\<close>

text \<open>The lifecycle calls (start or stop) among the calls a request made.\<close>

fun is_lifecycle :: "ec2_call \<Rightarrow> bool" where
  "is_lifecycle (StartInstances ids) = True"
| "is_lifecycle (StopInstances ids) = True"
| "is_lifecycle _ = False"

definition lifecycle_calls :: "ec2_call list \<Rightarrow> ec2_call list" where
  "lifecycle_calls calls = filter is_lifecycle calls"

section \<open>Example environments\<close>

text \<open>
  A client over a fixed tag index and a fixed list of instance statuses; every answer is
  one page, filtered as the request asks, and every lifecycle call is accepted.
\<close>

definition matches_filter :: "Tag \<Rightarrow> string \<times> string list \<Rightarrow> bool" where
  "matches_filter t f =
     (if fst f = ''resource-id'' then ResourceId t \<in> set (snd f)
      else if fst f = ''key'' then Key t \<in> set (snd f)
      else True)"

definition example_client :: "Tag list \<Rightarrow> InstanceStatus list \<Rightarrow> ec2_client" where
  "example_client tags statuses =
     \<lparr>describe_tags =
        (\<lambda>filters token.
           Inr \<lparr>page_items = Some (filter (\<lambda>t. list_all (matches_filter t) filters) tags),
                NextToken = None\<rparr>),
      describe_instance_status =
        (\<lambda>ids all token.
           Inr \<lparr>page_items = Some (filter (\<lambda>s. InstanceId s \<in> set ids) statuses),
                NextToken = None\<rparr>),
      start_instances = (\<lambda>ids. Inr ()),
      stop_instances = (\<lambda>ids. Inr ())\<rparr>"

definition owner_tag :: "string \<Rightarrow> string \<Rightarrow> Tag" where
  "owner_tag instance_id message_id =
     \<lparr>ResourceId = instance_id, Key = TAG_KEY, Value = message_id\<rparr>"


text \<open>
  A JSON codec given by finite tables: \<open>loads_table\<close> parses the listed texts and rejects
  every other text, \<open>dumps_table\<close> writes the listed values.
\<close>

definition loads_table :: "(string \<times> json) list \<Rightarrow> string \<Rightarrow> exn + json" where
  "loads_table table text =
     (case map_of table text of None \<Rightarrow> Inl JSONDecodeError | Some v \<Rightarrow> Inr v)"

definition dumps_table :: "(json \<times> string) list \<Rightarrow> json \<Rightarrow> string" where
  "dumps_table table data = (case map_of table data of None \<Rightarrow> ''null'' | Some text \<Rightarrow> text)"

definition ping_text :: string where
  \<open>ping_text = ''{"type": 1}''\<close>

definition ping_payload :: json where
  "ping_payload = JObject [(''type'', JInt 1)]"

definition component_text :: "string \<Rightarrow> string \<Rightarrow> string" where
  \<open>component_text message_id custom_id =
     ''{"type": 3, "message": {"id": "'' @ message_id @ ''"}, "data": {"custom_id": "''
       @ custom_id @ ''"}}''\<close>

definition component_payload :: "string \<Rightarrow> string \<Rightarrow> json" where
  "component_payload message_id custom_id =
     JObject [(''type'', JInt 3),
              (''message'', JObject [(''id'', JString message_id)]),
              (''data'', JObject [(''custom_id'', JString custom_id)])]"

definition example_env ::
  "(bytes \<Rightarrow> bytes \<Rightarrow> exn + unit) option \<Rightarrow> (string \<times> json) list \<Rightarrow> ec2_client \<Rightarrow> env" where
  "example_env key table client =
     \<lparr>verify_key = key,
      json_loads = loads_table table,
      json_dumps = dumps_table [(ping_payload, ping_text)],
      ec2 = client\<rparr>"

definition example_request :: "(string \<times> string) list \<Rightarrow> bytes option \<Rightarrow> HTTPRequest" where
  "example_request hs b =
     \<lparr>request_method = ''POST'', path = ''/'', query_parameters = None, headers = hs, body = b\<rparr>"

definition component_env :: "string \<Rightarrow> string \<Rightarrow> ec2_client \<Rightarrow> env" where
  "component_env message_id custom_id client =
     example_env None
       [(component_text message_id custom_id, component_payload message_id custom_id)] client"

definition component_request :: "string \<Rightarrow> string \<Rightarrow> HTTPRequest" where
  "component_request message_id custom_id =
     example_request [] (Some (component_text message_id custom_id))"

text \<open>
  A verifier with the behaviour of PyNaCl's \<^verbatim>\<open>VerifyKey.verify(message, signature)\<close>: a
  signature that is not 64 bytes long raises \<^verbatim>\<open>nacl.exceptions.ValueError\<close>, which is not a
  \<^verbatim>\<open>BadSignatureError\<close>; otherwise the signature is checked.
\<close>

definition length_checked_verify ::
  "(bytes \<Rightarrow> bytes \<Rightarrow> bool) \<Rightarrow> bytes \<Rightarrow> bytes \<Rightarrow> exn + unit" where
  "length_checked_verify valid message signature =
     (if length signature \<noteq> 64 then Inl ValueError
      else if valid message signature then Inr ()
      else Inl BadSignatureError)"





section \<open>Auxiliary lemmas\<close>

lemma py_eq_int_not_null: "py_eq_int t n \<Longrightarrow> t \<noteq> JNull"
  by (cases t) auto

lemma py_eq_int_3_not_1: "py_eq_int t 3 \<Longrightarrow> \<not> py_eq_int t 1"
proof (cases t)
  case (JFloat f)
  assume "py_eq_int t 3"
  with JFloat show ?thesis by (cases f) auto
qed auto

lemma split_prefix:
  "sep \<notin> set a \<Longrightarrow> split sep (a @ sep # t) = a # split sep t"
  by (induction a) auto

lemma split_maxsplit1_prefix:
  "sep \<notin> set a \<Longrightarrow> split_maxsplit1 sep (a @ sep # t) = [a, t]"
  by (induction a) auto

lemma split_no_sep: "sep \<notin> set a \<Longrightarrow> split sep a = [a]"
  by (induction a) auto

lemma split_maxsplit1_no_sep: "sep \<notin> set a \<Longrightarrow> split_maxsplit1 sep a = [a]"
  by (induction a) auto

lemma handle_request_component:
  assumes "verify_discord_request_auth e request = Inr ()"
      and "get_json_body_data e request = Inr (JObject members)"
      and "py_eq_int (dict_get members ''type'') 3"
      and "get_or_empty_get members ''message'' ''id'' = Inr message_id"
      and "message_id \<noteq> JNull"
      and "get_or_empty_get members ''data'' ''custom_id'' = Inr (JString custom_id)"
      and "custom_id \<noteq> []"
  shows "handle_request e request =
           (case start_stop (ec2 e) message_id custom_id of
              (Inl x, calls) \<Rightarrow> Some (Inl x, calls)
            | (Inr u, calls) \<Rightarrow>
                Option.bind (render_message e message_id)
                  (\<lambda>(r, calls'). Some (r, calls @ calls')))"
  using assms py_eq_int_not_null[OF assms(3)] py_eq_int_3_not_1[OF assms(3)]
  by (simp add: handle_request_def)

lemma start_stop_action:
  assumes "action = ''start'' \<or> action = ''stop''"
  shows "start_stop client message_id (action @ '':'' @ instance_id) =
           (case get_message_id_for_instance client instance_id of
              (Inl NotManaged, calls) \<Rightarrow>
                (Inl (HTTPError ''Not allowed: instance doesn't exist or isn't managed by svrmgr''
                        403), calls)
            | (Inl x, calls) \<Rightarrow> (Inl x, calls)
            | (Inr instance_message_id, calls) \<Rightarrow>
                if \<not> py_eq_str (Some instance_message_id) message_id then
                  (Inl (HTTPError ''Not allowed: instance isn't managed by this message'' 403),
                   calls)
                else if action = ''start'' then
                  (start_instances client [instance_id], calls @ [StartInstances [instance_id]])
                else
                  (stop_instances client [instance_id], calls @ [StopInstances [instance_id]]))"
proof -
  have nosep: "CHR '':'' \<notin> set action" using assms by auto
  have s1: "split (CHR '':'') (action @ '':'' @ instance_id) = action # split (CHR '':'') instance_id"
    using split_prefix[OF nosep, of instance_id] by simp
  have s2: "split_maxsplit1 (CHR '':'') (action @ '':'' @ instance_id) = [action, instance_id]"
    using split_maxsplit1_prefix[OF nosep, of instance_id] by simp
  show ?thesis
    unfolding start_stop_def s1 s2 using assms
    by (auto simp: index0_def start_instance_def stop_instance_def
             split: prod.splits sum.splits exn.splits)
qed

lemma start_stop_bare:
  assumes "action = ''start'' \<or> action = ''stop''"
  shows "start_stop client message_id action = (Inl ValueError, [])"
proof -
  have nosep: "CHR '':'' \<notin> set action" using assms by auto
  show ?thesis
    unfolding start_stop_def split_no_sep[OF nosep] split_maxsplit1_no_sep[OF nosep]
    using assms by (auto simp: index0_def)
qed

lemma next_pages_calls_aux:
  assumes "next_pages client_fn call response = Some y"
  shows "\<forall>c \<in> set (snd y). \<exists>t. c = call t"
proof (rule next_pages.raw_induct
               [where P = "\<lambda>cf c r y. \<forall>x \<in> set (snd y). \<exists>t. x = c t", OF _ assms],
       goal_cases)
  case (1 rec client_fn call response y)
  show ?case
  proof (cases "token_given (NextToken response)")
    case False
    with 1(2) show ?thesis by auto
  next
    case True
    show ?thesis
    proof (cases "client_fn (NextToken response)")
      case (Inl x)
      with True 1(2) show ?thesis by auto
    next
      case (Inr response')
      with True 1(2) obtain y' where
        rec: "rec client_fn call response' = Some y'"
        and calls: "snd y = call (NextToken response) # snd y'"
        by (auto simp: bind_eq_Some_conv split: prod.splits)
      from 1(1)[OF rec] calls show ?thesis by auto
    qed
  qed
qed

lemma next_pages_calls:
  "next_pages client_fn call response = Some (r, calls) \<Longrightarrow> \<forall>c \<in> set calls. \<exists>t. c = call t"
  using next_pages_calls_aux[of client_fn call response "(r, calls)"] by simp

lemma iter_pages_calls:
  assumes "iter_ec2_response_pages client_fn call = Some (r, calls)"
  shows "\<forall>c \<in> set calls. \<exists>t. c = call t"
proof (cases "client_fn None")
  case (Inl x)
  with assms show ?thesis by (auto simp: iter_ec2_response_pages_def)
next
  case (Inr response)
  with assms obtain r' calls' where
    "next_pages client_fn call response = Some (r', calls')" and "calls = call None # calls'"
    by (auto simp: iter_ec2_response_pages_def bind_eq_Some_conv)
  with next_pages_calls[of client_fn call response r' calls'] show ?thesis by auto
qed

lemma list_instances_calls:
  assumes "list_instances client = Some (r, calls)"
  shows "lifecycle_calls calls = []"
proof -
  from assms obtain r' where
    "iter_ec2_response_pages (describe_tags client list_filters) (DescribeTags list_filters)
       = Some (r', calls)"
    by (auto simp: list_instances_def bind_eq_Some_conv)
  from iter_pages_calls[OF this] show ?thesis
    by (auto simp: lifecycle_calls_def filter_empty_conv)
qed

lemma get_instances_state_calls:
  assumes "get_instances_state client instances = Some (r, calls)"
  shows "lifecycle_calls calls = []"
proof -
  from assms obtain r' where
    "iter_ec2_response_pages (describe_instance_status client (map inst_id instances) True)
       (DescribeInstanceStatus (map inst_id instances) True) = Some (r', calls)"
    by (auto simp: get_instances_state_def bind_eq_Some_conv)
  from iter_pages_calls[OF this] show ?thesis
    by (auto simp: lifecycle_calls_def filter_empty_conv)
qed

lemma render_message_calls:
  assumes "render_message e message_id = Some (r, calls)"
  shows "lifecycle_calls calls = []"
proof -
  from assms obtain r1 calls1 where
    l: "list_instances (ec2 e) = Some (r1, calls1)"
    and rest: "(case r1 of
                  Inl x \<Rightarrow> Some (Inl x, calls1)
                | Inr instances \<Rightarrow>
                    Option.bind (get_instances_state (ec2 e) (select_instances message_id instances))
                      (\<lambda>(r', calls').
                         Some (map_sum id
                                 (\<lambda>instances'. from_json_body_data e 200 (response_data instances'))
                                 r',
                               calls1 @ calls'))) = Some (r, calls)"
    by (auto simp: render_message_def bind_eq_Some_conv)
  note c1 = list_instances_calls[OF l]
  show ?thesis
  proof (cases r1)
    case (Inl x)
    with rest c1 show ?thesis by auto
  next
    case (Inr instances)
    with rest obtain r2 calls2 where
      g: "get_instances_state (ec2 e) (select_instances message_id instances) = Some (r2, calls2)"
      and "calls = calls1 @ calls2"
      by (auto simp: bind_eq_Some_conv)
    with c1 get_instances_state_calls[OF g] show ?thesis
      by (simp add: lifecycle_calls_def)
  qed
qed

lemma get_message_id_calls:
  "snd (get_message_id_for_instance client instance_id)
     = [DescribeTags (owner_filters instance_id) None]"
  by (auto simp: get_message_id_for_instance_def Let_def split: sum.splits list.splits)

lemma py_eq_str_iff: "py_eq_str (Some owner) message_id \<longleftrightarrow> message_id = JString owner"
  by (cases message_id) auto

lemma start_stop_unknown:
  assumes "index0 (split (CHR '':'') custom_id) = Inr first"
      and "first \<notin> {''start'', ''stop'', ''refresh''}" and "custom_id \<noteq> ''refresh''"
  shows "start_stop client message_id custom_id
           = (Inl (HTTPError ''Unknown component custom ID'' 400), [])"
  using assms by (simp add: start_stop_def)

lemma verify_without_signature_header:
  assumes "verify_key e = Some verify"
      and "get_header request ''X-Signature-Ed25519'' = None"
  shows "verify_discord_request_auth e request =
           (let message = or_empty (get_header request ''X-Signature-Timestamp'')
                            @ or_empty (body request)
            in if message = [] then Inl (HTTPError ''missing request signature'' 401)
               else (case verify message [] of
                       Inl BadSignatureError \<Rightarrow> Inl (HTTPError ''invalid request signature'' 401)
                     | Inl x \<Rightarrow> Inl x
                     | Inr u \<Rightarrow> Inr ()))"
  using assms by (simp add: verify_discord_request_auth_def or_empty_def Let_def)

lemma handle_request_auth_fails:
  "verify_discord_request_auth e request = Inl x \<Longrightarrow> handle_request e request = Some (Inl x, [])"
  by (simp add: handle_request_def)

lemma component_env_hypotheses:
  "verify_discord_request_auth (component_env ''M1'' ''stop:i-abc'' client)
     (component_request ''M1'' ''stop:i-abc'') = Inr ()"
  "get_json_body_data (component_env ''M1'' ''stop:i-abc'' client)
     (component_request ''M1'' ''stop:i-abc'')
     = Inr (JObject [(''type'', JInt 3), (''message'', JObject [(''id'', JString ''M1'')]),
                     (''data'', JObject [(''custom_id'', JString ''stop:i-abc'')])])"
  "py_eq_int (dict_get [(''type'', JInt 3), (''message'', JObject [(''id'', JString ''M1'')]),
                        (''data'', JObject [(''custom_id'', JString ''stop:i-abc'')])] ''type'') 3"
  "get_or_empty_get [(''type'', JInt 3), (''message'', JObject [(''id'', JString ''M1'')]),
                     (''data'', JObject [(''custom_id'', JString ''stop:i-abc'')])]
     ''message'' ''id'' = Inr (JString ''M1'')"
  "get_or_empty_get [(''type'', JInt 3), (''message'', JObject [(''id'', JString ''M1'')]),
                     (''data'', JObject [(''custom_id'', JString ''stop:i-abc'')])]
     ''data'' ''custom_id'' = Inr (JString (''stop'' @ '':'' @ ''i-abc''))"
  by (simp_all add: verify_discord_request_auth_def get_json_body_data_def component_env_def
        component_request_def example_env_def example_request_def loads_table_def
        component_text_def component_payload_def decode_utf8_def byte_values_def dict_get_def
        get_or_empty_get_def)





lemma b64encode_nonempty: "b \<noteq> [] \<Longrightarrow> b64encode b \<noteq> []"
  by (cases "byte_values b" rule: b64encode_values.cases)
     (auto simp: b64encode_def byte_values_def)





lemma iter_single_page:
  assumes "client_fn None = Inr response" and "\<not> token_given (NextToken response)"
  shows "iter_ec2_response_pages client_fn call = Some (Inr (items_or_empty response), [call None])"
  using assms by (simp add: iter_ec2_response_pages_def next_pages.simps)

section \<open>Owner-message resolution: the number of matching tags\<close>

text \<open>
  C3. Zero matching ownership tags fail with \<^verbatim>\<open>NotManaged\<close>, one tag returns its value,
  and more than one tag is meant to be a fatal integrity error. The guard of the source is
  \<^verbatim>\<open>len(tags) > 2\<close>: with exactly two matching tags, of values \<open>M1\<close> and \<open>M2\<close>, the
  function returns \<open>M1\<close> as the owning message instead of raising.
\<close>

theorem get_message_id_two_tags_returns_first:
  "fst (get_message_id_for_instance
          (example_client [owner_tag ''i-abc'' ''M1'', owner_tag ''i-abc'' ''M2''] [])
          ''i-abc'') = Inr ''M1''"
  by (simp add: get_message_id_for_instance_def example_client_def items_or_empty_def
        owner_tag_def owner_filters_def matches_filter_def)

section \<open>Ping\<close>

text \<open>
  C7. An authenticated payload whose type discriminator equals 1 (in Python's sense of
  \<^verbatim>\<open>==\<close>) is answered with status 200 and the JSON body \<^verbatim>\<open>{"type": 1}\<close>; the call log is
  empty: no tag or status lookup, no lifecycle call and no rendering take place, whatever
  the message and the component fields of the payload hold.
\<close>

theorem ping_is_acknowledged_without_calls:
  assumes "verify_discord_request_auth e request = Inr ()"
      and "get_json_body_data e request = Inr (JObject members)"
      and "py_eq_int (dict_get members ''type'') 1"
  shows "handle_request e request =
           Some (Inr \<lparr>status_code = 200,
                      response_headers = [(''Content-Type'', ''application/json; charset=utf-8'')],
                      response_body = Some (json_dumps e (JObject [(''type'', JInt 1)]))\<rparr>,
                 [])"
  using assms py_eq_int_not_null[OF assms(3)]
  by (simp add: handle_request_def from_json_body_data_def)

theorem ping_is_acknowledged_without_calls_witness:
  "handle_request (example_env None [(ping_text, ping_payload)] (example_client [] []))
     (example_request [] (Some ping_text)) =
   Some (Inr \<lparr>status_code = 200,
              response_headers = [(''Content-Type'', ''application/json; charset=utf-8'')],
              response_body = Some ping_text\<rparr>,
         [])"
  using ping_is_acknowledged_without_calls
          [of "example_env None [(ping_text, ping_payload)] (example_client [] [])"
              "example_request [] (Some ping_text)" "[(''type'', JInt 1)]"]
  by (simp add: verify_discord_request_auth_def get_json_body_data_def example_env_def
        example_request_def loads_table_def dumps_table_def ping_text_def ping_payload_def
        decode_utf8_def byte_values_def dict_get_def)

section \<open>Validation of the request body\<close>

text \<open>
  C6, as stated, at a body that is no JSON text at all: \<^verbatim>\<open>json.loads\<close> raises for the
  body \<^verbatim>\<open>hello\<close>, and \<^verbatim>\<open>bytes.decode\<close> raises for the byte \<^verbatim>\<open>0xFF\<close>. Neither exception is an
  \<^verbatim>\<open>HTTPError\<close>, so the handler does not fail with status 400.
\<close>

theorem unparseable_body_is_not_400:
  "handle_request (example_env None [] (example_client [] [])) (example_request [] (Some ''hello''))
     = Some (Inl JSONDecodeError, [])
   \<and> handle_request (example_env None [] (example_client [] []))
         (example_request [] (Some [CHR 0xFF]))
     = Some (Inl UnicodeDecodeError, [])"
  by (simp add: handle_request_def verify_discord_request_auth_def get_json_body_data_def
        example_env_def example_request_def loads_table_def decode_utf8_def byte_values_def)

text \<open>
  C6, amended. For a request that passes authentication: when the body is absent, or
  decodes and parses to a JSON value that is not an object, the handler fails with
  \<^verbatim>\<open>HTTPError\<close> 400 "Bad request body: not an object"; when the parsed object has no
  \<^verbatim>\<open>type\<close> member or a null one, it fails with \<^verbatim>\<open>HTTPError\<close> 400
  "Bad request body: missing type". No EC2 call is made.
\<close>

theorem not_an_object_or_missing_type_is_400:
  assumes "verify_discord_request_auth e request = Inr ()"
  shows "(body request = None \<longrightarrow>
            handle_request e request =
              Some (Inl (HTTPError ''Bad request body: not an object'' 400), []))
       \<and> (get_json_body_data e request = Inr data \<and> (\<forall>members. data \<noteq> JObject members) \<longrightarrow>
            handle_request e request =
              Some (Inl (HTTPError ''Bad request body: not an object'' 400), []))
       \<and> (get_json_body_data e request = Inr (JObject members)
            \<and> dict_get members ''type'' = JNull \<longrightarrow>
            handle_request e request =
              Some (Inl (HTTPError ''Bad request body: missing type'' 400), []))"
proof (intro conjI impI)
  assume "body request = None"
  with assms show "handle_request e request =
      Some (Inl (HTTPError ''Bad request body: not an object'' 400), [])"
    by (simp add: handle_request_def get_json_body_data_def)
next
  assume "get_json_body_data e request = Inr data \<and> (\<forall>members. data \<noteq> JObject members)"
  with assms show "handle_request e request =
      Some (Inl (HTTPError ''Bad request body: not an object'' 400), [])"
    by (cases data) (simp_all add: handle_request_def)
next
  assume "get_json_body_data e request = Inr (JObject members)
            \<and> dict_get members ''type'' = JNull"
  with assms show "handle_request e request =
      Some (Inl (HTTPError ''Bad request body: missing type'' 400), [])"
    by (simp add: handle_request_def)
qed

theorem not_an_object_or_missing_type_is_400_witness:
  "handle_request (example_env None [(''[1]'', JArray [JInt 1]), (''{}'', JObject [])]
                     (example_client [] []))
     (example_request [] None)
     = Some (Inl (HTTPError ''Bad request body: not an object'' 400), [])
   \<and> handle_request (example_env None [(''[1]'', JArray [JInt 1]), (''{}'', JObject [])]
                       (example_client [] []))
       (example_request [] (Some ''[1]''))
     = Some (Inl (HTTPError ''Bad request body: not an object'' 400), [])
   \<and> handle_request (example_env None [(''[1]'', JArray [JInt 1]), (''{}'', JObject [])]
                       (example_client [] []))
       (example_request [] (Some ''{}''))
     = Some (Inl (HTTPError ''Bad request body: missing type'' 400), [])"
  using not_an_object_or_missing_type_is_400
          [of "example_env None [(''[1]'', JArray [JInt 1]), (''{}'', JObject [])]
                 (example_client [] [])"
              "example_request [] None"]
        not_an_object_or_missing_type_is_400
          [of "example_env None [(''[1]'', JArray [JInt 1]), (''{}'', JObject [])]
                 (example_client [] [])"
              "example_request [] (Some ''[1]'')" "JArray [JInt 1]"]
        not_an_object_or_missing_type_is_400
          [of "example_env None [(''[1]'', JArray [JInt 1]), (''{}'', JObject [])]
                 (example_client [] [])"
              "example_request [] (Some ''{}'')" _ "[]"]
  by (simp add: verify_discord_request_auth_def get_json_body_data_def example_env_def
        example_request_def loads_table_def decode_utf8_def byte_values_def dict_get_def)

section \<open>The grammar of the custom identifier\<close>

text \<open>
  C4. A custom identifier that is a bare \<^verbatim>\<open>start\<close> (no colon, no target) is meant to be
  rejected with 400 "Unknown component custom ID". The source takes the branch for
  \<^verbatim>\<open>start\<close> and \<^verbatim>\<open>stop\<close> and unpacks \<^verbatim>\<open>custom_id.split(":", maxsplit=1)\<close> into two names;
  with one piece the unpacking raises \<^verbatim>\<open>ValueError\<close>, which is not an \<^verbatim>\<open>HTTPError\<close>.
\<close>

theorem bare_start_raises_value_error:
  "handle_request (component_env ''M1'' ''start'' (example_client [owner_tag ''i-abc'' ''M1''] []))
     (component_request ''M1'' ''start'')
     = Some (Inl ValueError, [])"
proof -
  have "handle_request (component_env ''M1'' ''start'' (example_client [owner_tag ''i-abc'' ''M1''] []))
          (component_request ''M1'' ''start'')
        = (case start_stop (ec2 (component_env ''M1'' ''start''
                                   (example_client [owner_tag ''i-abc'' ''M1''] [])))
                  (JString ''M1'') ''start'' of
              (Inl x, calls) \<Rightarrow> Some (Inl x, calls)
            | (Inr u, calls) \<Rightarrow>
                Option.bind (render_message (component_env ''M1'' ''start''
                                   (example_client [owner_tag ''i-abc'' ''M1''] [])) (JString ''M1''))
                  (\<lambda>(r, calls'). Some (r, calls @ calls')))"
    by (rule handle_request_component[where members =
              "[(''type'', JInt 3), (''message'', JObject [(''id'', JString ''M1'')]),
                (''data'', JObject [(''custom_id'', JString ''start'')])]"])
       (simp_all add: verify_discord_request_auth_def get_json_body_data_def component_env_def
          component_request_def example_env_def example_request_def loads_table_def
          component_text_def component_payload_def decode_utf8_def byte_values_def dict_get_def
          get_or_empty_get_def)
  then show ?thesis by (simp add: start_stop_bare)
qed

section \<open>Authentication\<close>

text \<open>
  C2. A request without a signature header, under a configured verification key, is meant
  to fail with 401. The source raises its 401 "missing request signature" only when the
  signed message (timestamp and body) is empty; otherwise the absent header becomes the
  empty signature and is handed to the verifier. With a verifier that raises
  \<^verbatim>\<open>ValueError\<close> for a signature that is not 64 bytes long, a request with a timestamp, a
  body and no signature header fails with that \<^verbatim>\<open>ValueError\<close>, not with an \<^verbatim>\<open>HTTPError\<close>.
\<close>

theorem missing_signature_header_is_not_401:
  "handle_request
     (example_env (Some (length_checked_verify (\<lambda>message signature. False)))
        [(ping_text, ping_payload)] (example_client [] []))
     (example_request [(''X-Signature-Timestamp'', ''1700000000'')] (Some ping_text))
     = Some (Inl ValueError, [])"
proof -
  have h: "get_header (example_request [(''X-Signature-Timestamp'', ''1700000000'')] (Some ping_text))
             ''X-Signature-Ed25519'' = None"
    by (simp add: example_request_def get_header_def lower_def lower_char_def)
  have k: "verify_key (example_env (Some (length_checked_verify (\<lambda>message signature. False)))
        [(ping_text, ping_payload)] (example_client [] [])) = Some (length_checked_verify (\<lambda>message signature. False))"
    by (simp add: example_env_def)
  have b: "body (example_request [(''X-Signature-Timestamp'', ''1700000000'')] (Some ping_text)) = Some ping_text"
    by (simp add: example_request_def)
  have "verify_discord_request_auth
     (example_env (Some (length_checked_verify (\<lambda>message signature. False)))
        [(ping_text, ping_payload)] (example_client [] []))
     (example_request [(''X-Signature-Timestamp'', ''1700000000'')] (Some ping_text)) = Inl ValueError"
    unfolding verify_without_signature_header[OF k h] b
    by (simp add: or_empty_def length_checked_verify_def ping_text_def)
  then show ?thesis by (rule handle_request_auth_fails)
qed

section \<open>Authorization of start and stop\<close>

text \<open>
  C1. For an authenticated message-component interaction with a message id and a custom
  identifier \<open>action:instance_id\<close>, \<open>action\<close> being \<^verbatim>\<open>start\<close> or \<^verbatim>\<open>stop\<close>:
  if the lookup of the ownership tag fails with \<^verbatim>\<open>NotManaged\<close>, the handler fails with
  \<^verbatim>\<open>HTTPError\<close> 403 and the only call made is the tag lookup; if the lookup returns an owner
  that is not the message id of the interaction, the same holds; and whenever the handler
  returns or raises after a lifecycle call, the lookup had succeeded with an owner equal to
  the message id, and the lifecycle calls are exactly the one start or stop of that instance.
\<close>

theorem start_stop_only_for_owning_message:
  assumes auth: "verify_discord_request_auth e request = Inr ()"
      and parsed: "get_json_body_data e request = Inr (JObject members)"
      and component: "py_eq_int (dict_get members ''type'') 3"
      and message: "get_or_empty_get members ''message'' ''id'' = Inr message_id"
                   "message_id \<noteq> JNull"
      and custom: "get_or_empty_get members ''data'' ''custom_id''
                     = Inr (JString (action @ '':'' @ instance_id))"
      and action: "action = ''start'' \<or> action = ''stop''"
  shows "(fst (get_message_id_for_instance (ec2 e) instance_id) = Inl NotManaged \<longrightarrow>
            handle_request e request =
              Some (Inl (HTTPError
                           ''Not allowed: instance doesn't exist or isn't managed by svrmgr'' 403),
                    [DescribeTags (owner_filters instance_id) None]))
       \<and> (\<forall>owner. fst (get_message_id_for_instance (ec2 e) instance_id) = Inr owner
                   \<and> message_id \<noteq> JString owner \<longrightarrow>
            handle_request e request =
              Some (Inl (HTTPError ''Not allowed: instance isn't managed by this message'' 403),
                    [DescribeTags (owner_filters instance_id) None]))
       \<and> lifecycle_calls [DescribeTags (owner_filters instance_id) None] = []
       \<and> (\<forall>r calls. handle_request e request = Some (r, calls) \<and> lifecycle_calls calls \<noteq> [] \<longrightarrow>
            (\<exists>owner. fst (get_message_id_for_instance (ec2 e) instance_id) = Inr owner
                      \<and> message_id = JString owner)
            \<and> lifecycle_calls calls =
                [if action = ''start'' then StartInstances [instance_id]
                 else StopInstances [instance_id]])"
proof -
  let ?lookup = "[DescribeTags (owner_filters instance_id) None]"
  let ?G = "get_message_id_for_instance (ec2 e) instance_id"
  have G: "?G = (fst ?G, ?lookup)"
    using get_message_id_calls[of "ec2 e" instance_id] by (cases ?G) simp
  have nolife: "lifecycle_calls ?lookup = []"
    by (simp add: lifecycle_calls_def)
  have ne: "action @ '':'' @ instance_id \<noteq> []" by simp
  note H = handle_request_component[OF auth parsed component message custom ne]
  note S = start_stop_action[OF action, of "ec2 e" message_id instance_id]
  have unmanaged: "handle_request e request =
        Some (Inl (HTTPError ''Not allowed: instance doesn't exist or isn't managed by svrmgr'' 403),
              ?lookup)"
    if "fst ?G = Inl NotManaged"
  proof -
    from that G have "?G = (Inl NotManaged, ?lookup)" by simp
    with S H show ?thesis by simp
  qed
  have mismatch: "handle_request e request =
        Some (Inl (HTTPError ''Not allowed: instance isn't managed by this message'' 403), ?lookup)"
    if "fst ?G = Inr owner" "message_id \<noteq> JString owner" for owner
  proof -
    from that G have "?G = (Inr owner, ?lookup)" by simp
    with S H that(2) show ?thesis by (simp add: py_eq_str_iff)
  qed
  have issued: "(\<exists>owner. fst ?G = Inr owner \<and> message_id = JString owner)
                \<and> lifecycle_calls calls =
                    [if action = ''start'' then StartInstances [instance_id]
                     else StopInstances [instance_id]]"
    if res: "handle_request e request = Some (r, calls)" and life: "lifecycle_calls calls \<noteq> []"
    for r calls
  proof (cases "fst ?G")
    case (Inl x)
    with G have g: "?G = (Inl x, ?lookup)" by simp
    have "start_stop (ec2 e) message_id (action @ '':'' @ instance_id)
            = (Inl (case x of NotManaged \<Rightarrow>
                      HTTPError ''Not allowed: instance doesn't exist or isn't managed by svrmgr'' 403
                    | _ \<Rightarrow> x), ?lookup)"
      unfolding S g by (cases x) simp_all
    with H res have "calls = ?lookup" by simp
    with life nolife show ?thesis by simp
  next
    case (Inr owner)
    with G have g: "?G = (Inr owner, ?lookup)" by simp
    show ?thesis
    proof (cases "message_id = JString owner")
      case False
      from mismatch[OF Inr False] res have "calls = ?lookup" by simp
      with life nolife show ?thesis by simp
    next
      case True
      let ?call = "if action = ''start'' then StartInstances [instance_id]
                   else StopInstances [instance_id]"
      let ?outcome = "if action = ''start'' then start_instances (ec2 e) [instance_id]
                      else stop_instances (ec2 e) [instance_id]"
      have ss: "start_stop (ec2 e) message_id (action @ '':'' @ instance_id)
                  = (?outcome, ?lookup @ [?call])"
        unfolding S g using True by (simp add: py_eq_str_iff)
      have "lifecycle_calls calls = [?call]"
      proof (cases ?outcome)
        case (Inl x)
        with H ss res have "calls = ?lookup @ [?call]" by simp
        then show ?thesis by (simp add: lifecycle_calls_def)
      next
        case (Inr u)
        with H ss res have
          "Option.bind (render_message e message_id)
             (\<lambda>(r, calls'). Some (r, (?lookup @ [?call]) @ calls')) = Some (r, calls)"
          by simp
        then obtain r' calls' where
          rm: "render_message e message_id = Some (r', calls')"
          and c: "calls = (?lookup @ [?call]) @ calls'"
          by (auto simp: bind_eq_Some_conv)
        from render_message_calls[OF rm] c show ?thesis
          by (simp add: lifecycle_calls_def)
      qed
      with Inr True show ?thesis by simp
    qed
  qed
  from unmanaged mismatch nolife issued show ?thesis by blast
qed

theorem start_stop_only_for_owning_message_witness:
  "handle_request (component_env ''M1'' ''stop:i-abc'' (example_client [] []))
     (component_request ''M1'' ''stop:i-abc'')
     = Some (Inl (HTTPError ''Not allowed: instance doesn't exist or isn't managed by svrmgr''
                    403),
             [DescribeTags (owner_filters ''i-abc'') None])
   \<and> handle_request
         (component_env ''M1'' ''stop:i-abc''
            (example_client [owner_tag ''i-abc'' ''M2'']
               [\<lparr>InstanceId = ''i-abc'', InstanceState_Name = ''running''\<rparr>]))
         (component_request ''M1'' ''stop:i-abc'')
       = Some (Inl (HTTPError ''Not allowed: instance isn't managed by this message'' 403),
               [DescribeTags (owner_filters ''i-abc'') None])
   \<and> map_option (\<lambda>result. lifecycle_calls (snd result))
         (handle_request
            (component_env ''M1'' ''stop:i-abc''
               (example_client [owner_tag ''i-abc'' ''M1'']
                  [\<lparr>InstanceId = ''i-abc'', InstanceState_Name = ''running''\<rparr>]))
            (component_request ''M1'' ''stop:i-abc''))
       = Some [StopInstances [''i-abc'']]
   \<and> fst (get_message_id_for_instance
              (example_client [owner_tag ''i-abc'' ''M1'']
                 [\<lparr>InstanceId = ''i-abc'', InstanceState_Name = ''running''\<rparr>])
              ''i-abc'') = Inr ''M1''"
proof -
  let ?status = "[\<lparr>InstanceId = ''i-abc'', InstanceState_Name = ''running''\<rparr>]"
  let ?request = "component_request ''M1'' ''stop:i-abc''"
  let ?none = "component_env ''M1'' ''stop:i-abc'' (example_client [] [])"
  let ?other = "component_env ''M1'' ''stop:i-abc''
                  (example_client [owner_tag ''i-abc'' ''M2''] ?status)"
  let ?owned = "component_env ''M1'' ''stop:i-abc''
                  (example_client [owner_tag ''i-abc'' ''M1''] ?status)"
  have lookup_none: "fst (get_message_id_for_instance (ec2 ?none) ''i-abc'') = Inl NotManaged"
    by code_simp
  have lookup_other: "fst (get_message_id_for_instance (ec2 ?other) ''i-abc'') = Inr ''M2''"
    by code_simp
  have lookup_owned: "fst (get_message_id_for_instance (ec2 ?owned) ''i-abc'') = Inr ''M1''"
    by code_simp
  have ec2_owned: "ec2 ?owned = example_client [owner_tag ''i-abc'' ''M1''] ?status"
    by (simp add: component_env_def example_env_def)
  obtain r calls where run: "handle_request ?owned ?request = Some (r, calls)"
    and life: "lifecycle_calls calls \<noteq> []"
  proof -
    have "map_option snd (handle_request ?owned ?request)
            = Some [DescribeTags (owner_filters ''i-abc'') None, StopInstances [''i-abc''],
                    DescribeTags list_filters None,
                    DescribeInstanceStatus [''i-abc''] True None]"
      by code_simp
    then obtain r where "handle_request ?owned ?request
            = Some (r, [DescribeTags (owner_filters ''i-abc'') None, StopInstances [''i-abc''],
                        DescribeTags list_filters None,
                        DescribeInstanceStatus [''i-abc''] True None])"
      by auto
    then show ?thesis by (rule that) (simp add: lifecycle_calls_def)
  qed
  note none = start_stop_only_for_owning_message
                [OF component_env_hypotheses(1-4) _ component_env_hypotheses(5),
                 of "example_client [] []"]
  note other = start_stop_only_for_owning_message
                [OF component_env_hypotheses(1-4) _ component_env_hypotheses(5),
                 of "example_client [owner_tag ''i-abc'' ''M2''] ?status"]
  note owned = start_stop_only_for_owning_message
                [OF component_env_hypotheses(1-4) _ component_env_hypotheses(5),
                 of "example_client [owner_tag ''i-abc'' ''M1''] ?status"]
  from none lookup_none have 1: "handle_request ?none ?request
     = Some (Inl (HTTPError ''Not allowed: instance doesn't exist or isn't managed by svrmgr''
                    403),
             [DescribeTags (owner_filters ''i-abc'') None])"
    by simp
  from other lookup_other have 2: "handle_request ?other ?request
       = Some (Inl (HTTPError ''Not allowed: instance isn't managed by this message'' 403),
               [DescribeTags (owner_filters ''i-abc'') None])"
    by simp
  from owned run life have "lifecycle_calls calls = [StopInstances [''i-abc'']]"
    by simp
  with run have 3: "map_option (\<lambda>result. lifecycle_calls (snd result))
         (handle_request ?owned ?request) = Some [StopInstances [''i-abc'']]"
    by simp
  from 1 2 3 lookup_owned ec2_owned show ?thesis by simp
qed

section \<open>An empty target\<close>

text \<open>
  C10. The custom identifiers \<^verbatim>\<open>start:\<close> and \<^verbatim>\<open>stop:\<close> are not rejected as malformed: the
  empty string is looked up as the instance identifier, and when the provider reports no
  ownership tag for it the handler fails with \<^verbatim>\<open>HTTPError\<close> 403 (not managed); the only
  call made is the tag lookup, so no start or stop is issued.
\<close>

theorem empty_target_is_not_managed:
  assumes "verify_discord_request_auth e request = Inr ()"
      and "get_json_body_data e request = Inr (JObject members)"
      and "py_eq_int (dict_get members ''type'') 3"
      and "get_or_empty_get members ''message'' ''id'' = Inr message_id"
      and "message_id \<noteq> JNull"
      and "get_or_empty_get members ''data'' ''custom_id'' = Inr (JString custom_id)"
      and "custom_id = ''start:'' \<or> custom_id = ''stop:''"
      and "describe_tags (ec2 e) (owner_filters '''') None = Inr response"
      and "items_or_empty response = []"
  shows "handle_request e request =
           Some (Inl (HTTPError ''Not allowed: instance doesn't exist or isn't managed by svrmgr''
                        403),
                 [DescribeTags (owner_filters '''') None])
         \<and> lifecycle_calls [DescribeTags (owner_filters '''') None] = []"
proof -
  have g: "get_message_id_for_instance (ec2 e) [] =
             (Inl NotManaged, [DescribeTags (owner_filters []) None])"
    using assms(8,9) by (simp add: get_message_id_for_instance_def)
  have ss: "start_stop (ec2 e) message_id (action @ '':'' @ []) =
          (Inl (HTTPError ''Not allowed: instance doesn't exist or isn't managed by svrmgr'' 403),
           [DescribeTags (owner_filters []) None])"
    if "action = ''start'' \<or> action = ''stop''" for action
    unfolding start_stop_action[OF that] g by simp
  from assms(7) have "start_stop (ec2 e) message_id custom_id =
          (Inl (HTTPError ''Not allowed: instance doesn't exist or isn't managed by svrmgr'' 403),
           [DescribeTags (owner_filters []) None])"
  proof
    assume "custom_id = ''start:''"
    with ss[of "''start''"] show ?thesis by simp
  next
    assume "custom_id = ''stop:''"
    with ss[of "''stop''"] show ?thesis by simp
  qed
  moreover from assms(7) have "custom_id \<noteq> []" by auto
  ultimately show ?thesis
    using handle_request_component[OF assms(1-6)]
    by (simp add: lifecycle_calls_def)
qed

theorem empty_target_is_not_managed_witness:
  "handle_request (component_env ''M1'' ''start:'' (example_client [owner_tag ''i-abc'' ''M1''] []))
     (component_request ''M1'' ''start:'')
     = Some (Inl (HTTPError ''Not allowed: instance doesn't exist or isn't managed by svrmgr''
                    403),
             [DescribeTags (owner_filters '''') None])
   \<and> lifecycle_calls [DescribeTags (owner_filters '''') None] = []"
  by (rule empty_target_is_not_managed
        [where members = "[(''type'', JInt 3), (''message'', JObject [(''id'', JString ''M1'')]),
                           (''data'', JObject [(''custom_id'', JString ''start:'')])]"
           and message_id = "JString ''M1''" and custom_id = "''start:''"
           and response = "\<lparr>page_items = Some [], NextToken = None\<rparr>"])
     (simp_all add: verify_discord_request_auth_def get_json_body_data_def component_env_def
        component_request_def example_env_def example_request_def loads_table_def
        component_text_def component_payload_def decode_utf8_def byte_values_def dict_get_def
        get_or_empty_get_def example_client_def owner_tag_def owner_filters_def
        matches_filter_def items_or_empty_def)

section \<open>Encoding a response for the transport\<close>



section \<open>The control grid\<close>





section \<open>The order of the rendered instances\<close>






end
